theory Spec2Isabelle
  imports Main "HOL-Library.Countable"
begin

section \<open>Grid layout engine: data model\<close>

text \<open>
  The grid module of the repository (\<open>grid/types.ts\<close>, \<open>grid/cell-calculator.ts\<close>,
  \<open>grid/grid-manager.ts\<close>) is embedded function by function.

  Every TypeScript \<open>number\<close> is an IEEE double. Counts and indices (rows, columns, cell
  coordinates, spans) are modelled as integers (\<open>int\<close>); pixel quantities (work area,
  margins, gaps, rectangles), which the source accepts unchecked and which may be
  fractional, are modelled as rationals (\<open>rat\<close>). Arithmetic in the model is exact,
  with one exception: the sum \<open>row + 1\<close> of \<open>cellToExcelNotation\<close> is rounded to a
  double as in the source. Exact arithmetic is what the source computes as long as every
  intermediate result is exactly representable, in particular while all values are safe
  integers (of magnitude at most \<open>2^53 - 1\<close>); statements that depend on exactness
  carry that bound as a hypothesis.
  \<open>Math.floor(a / b)\<close> is the floor of the exact quotient for \<open>b \<noteq> 0\<close>; for
  \<open>b = 0\<close> the source yields a non-finite number, which is outside the model, so
  statements about cell sizes assume a non-zero count.
  Strings are lists of characters; the string primitives are modelled on ASCII.

  Interfaces are records with the field names of the source, except \<open>PixelRect\<close>, whose
  fields \<open>x, y, width, height\<close> carry the prefix \<open>rect_\<close>. \<open>MonitorInfo\<close> keeps only
  the four work-area fields, the only ones the grid functions read.
\<close>

record CellAddress =
  row :: int
  column :: int

record CellSpan =
  startRow :: int
  startColumn :: int
  rowSpan :: int
  columnSpan :: int

record PixelRect =
  rect_x :: rat
  rect_y :: rat
  rect_width :: rat
  rect_height :: rat

record MonitorInfo =
  workAreaX :: rat
  workAreaY :: rat
  workAreaWidth :: rat
  workAreaHeight :: rat

record GridConfig =
  rows :: int
  columns :: int
  monitorIndex :: int
  cellGapHorizontal :: rat
  cellGapVertical :: rat
  marginTop :: rat
  marginBottom :: rat
  marginLeft :: rat
  marginRight :: rat

record CellAssignment =
  windowId :: string
  cellSpan :: CellSpan
  zIndex :: "int option"

record GridState =
  desktopIndex :: int
  config :: GridConfig
  assignments :: "CellAssignment list"
  lastUpdated :: string

text \<open>The anonymous result objects of the cell calculator.\<close>

record CellSize =
  width :: rat
  height :: rat

record RemainingSpace =
  horizontal :: rat
  vertical :: rat

definition DEFAULT_GRID_CONFIG :: GridConfig where
  "DEFAULT_GRID_CONFIG =
     \<lparr>rows = 3, columns = 3, monitorIndex = 0,
      cellGapHorizontal = 4, cellGapVertical = 4,
      marginTop = 0, marginBottom = 0, marginLeft = 0, marginRight = 0\<rparr>"

section \<open>Grid primitives (types.ts)\<close>

definition singleCell :: "int \<Rightarrow> int \<Rightarrow> CellSpan" where
  "singleCell r c = \<lparr>startRow = r, startColumn = c, rowSpan = 1, columnSpan = 1\<rparr>"



section \<open>Cell calculator (cell-calculator.ts): pixel arithmetic\<close>

definition calculateCellRect :: "CellSpan \<Rightarrow> GridConfig \<Rightarrow> MonitorInfo \<Rightarrow> PixelRect" where
  "calculateCellRect span cfg monitor =
     (let availableWidth = workAreaWidth monitor - marginLeft cfg - marginRight cfg;
          availableHeight = workAreaHeight monitor - marginTop cfg - marginBottom cfg;
          totalHGap = (of_int (columns cfg) - 1) * cellGapHorizontal cfg;
          totalVGap = (of_int (rows cfg) - 1) * cellGapVertical cfg;
          cellWidth = of_int \<lfloor>(availableWidth - totalHGap) / of_int (columns cfg)\<rfloor>;
          cellHeight = of_int \<lfloor>(availableHeight - totalVGap) / of_int (rows cfg)\<rfloor>
      in \<lparr>rect_x = workAreaX monitor + marginLeft cfg +
                    of_int (startColumn span) * (cellWidth + cellGapHorizontal cfg),
          rect_y = workAreaY monitor + marginTop cfg +
                    of_int (startRow span) * (cellHeight + cellGapVertical cfg),
          rect_width = of_int (columnSpan span) * cellWidth +
                    (of_int (columnSpan span) - 1) * cellGapHorizontal cfg,
          rect_height = of_int (rowSpan span) * cellHeight +
                    (of_int (rowSpan span) - 1) * cellGapVertical cfg\<rparr>)"

definition calculateSingleCellSize :: "GridConfig \<Rightarrow> MonitorInfo \<Rightarrow> CellSize" where
  "calculateSingleCellSize cfg monitor =
     (let availableWidth = workAreaWidth monitor - marginLeft cfg - marginRight cfg;
          availableHeight = workAreaHeight monitor - marginTop cfg - marginBottom cfg;
          totalHGap = (of_int (columns cfg) - 1) * cellGapHorizontal cfg;
          totalVGap = (of_int (rows cfg) - 1) * cellGapVertical cfg;
          cellWidth = of_int \<lfloor>(availableWidth - totalHGap) / of_int (columns cfg)\<rfloor>;
          cellHeight = of_int \<lfloor>(availableHeight - totalVGap) / of_int (rows cfg)\<rfloor>
      in \<lparr>width = cellWidth, height = cellHeight\<rparr>)"

definition calculateRemainingSpace :: "GridConfig \<Rightarrow> MonitorInfo \<Rightarrow> RemainingSpace" where
  "calculateRemainingSpace cfg monitor =
     (let availableWidth = workAreaWidth monitor - marginLeft cfg - marginRight cfg;
          availableHeight = workAreaHeight monitor - marginTop cfg - marginBottom cfg;
          totalHGap = (of_int (columns cfg) - 1) * cellGapHorizontal cfg;
          totalVGap = (of_int (rows cfg) - 1) * cellGapVertical cfg;
          cellWidth = of_int \<lfloor>(availableWidth - totalHGap) / of_int (columns cfg)\<rfloor>;
          cellHeight = of_int \<lfloor>(availableHeight - totalVGap) / of_int (rows cfg)\<rfloor>;
          usedWidth = cellWidth * of_int (columns cfg) + totalHGap;
          usedHeight = cellHeight * of_int (rows cfg) + totalVGap
      in \<lparr>horizontal = availableWidth - usedWidth,
          vertical = availableHeight - usedHeight\<rparr>)"

text \<open>
  The range on which the source's double arithmetic is the exact arithmetic above:
  \<open>isSafeInteger\<close> is \<open>Number.isSafeInteger\<close>, and \<open>exactAxis\<close> says that every
  value computed along one axis (by \<open>calculateSingleCellSize\<close> and
  \<open>calculateRemainingSpace\<close>), from the fields to the remainder, is a safe integer.
\<close>

definition isSafeInteger :: "rat \<Rightarrow> bool" where
  "isSafeInteger v = (of_int \<lfloor>v\<rfloor> = v \<and> \<bar>v\<bar> \<le> 9007199254740991)"

definition exactAxis :: "rat \<Rightarrow> rat \<Rightarrow> rat \<Rightarrow> rat \<Rightarrow> int \<Rightarrow> bool" where
  "exactAxis extent marginBefore marginAfter gap count =
     (let available = extent - marginBefore - marginAfter;
          totalGap = (of_int count - 1) * gap;
          cell = of_int \<lfloor>(available - totalGap) / of_int count\<rfloor>;
          used = cell * of_int count + totalGap
      in list_all isSafeInteger
           [extent, marginBefore, marginAfter, gap, of_int count, of_int count - 1,
            extent - marginBefore, available, totalGap, available - totalGap,
            cell, cell * of_int count, used, available - used])"

text \<open>The monitor and the grid of the repository's calculator tests.\<close>

definition mockMonitor :: MonitorInfo where
  "mockMonitor = \<lparr>workAreaX = 0, workAreaY = 0, workAreaWidth = 1920, workAreaHeight = 1040\<rparr>"

section \<open>String primitives of the host language\<close>

text \<open>
  The built-ins the notation code calls, on ASCII strings: character classes of the
  regular expressions (\<open>\d\<close>, \<open>[A-Z]\<close>, \<open>\s\<close>), \<open>toUpperCase\<close>, \<open>trim\<close>,
  \<open>String.fromCharCode\<close>, \<open>charCodeAt\<close>, \<open>parseInt(s, 10)\<close> on a string of digits
  (the source only passes it a group matched by \<open>\d+\<close>), the decimal
  \<open>toString\<close> of an integer, and the remainder operator \<open>%\<close>, whose result has the
  sign of the dividend. \<open>parseInt\<close> and \<open>toString\<close> are exact here: they read and
  print every digit, as the source does for integers of magnitude up to \<open>2^53\<close>.
\<close>

definition charCode :: "char \<Rightarrow> int" where
  "charCode ch = of_char ch"

definition fromCharCode :: "int \<Rightarrow> char" where
  "fromCharCode n = char_of n"

definition isDigit :: "char \<Rightarrow> bool" where
  "isDigit ch = (48 \<le> charCode ch \<and> charCode ch \<le> 57)"

definition isUpperLetter :: "char \<Rightarrow> bool" where
  "isUpperLetter ch = (65 \<le> charCode ch \<and> charCode ch \<le> 90)"

definition isSpace :: "char \<Rightarrow> bool" where
  "isSpace ch = (charCode ch \<in> {9, 10, 11, 12, 13, 32})"

definition toUpperChar :: "char \<Rightarrow> char" where
  "toUpperChar ch =
     (if 97 \<le> charCode ch \<and> charCode ch \<le> 122 then fromCharCode (charCode ch - 32) else ch)"

definition toUpperCase :: "string \<Rightarrow> string" where
  "toUpperCase s = map toUpperChar s"

definition trim :: "string \<Rightarrow> string" where
  "trim s = rev (dropWhile isSpace (rev (dropWhile isSpace s)))"

definition parseInt :: "string \<Rightarrow> int" where
  "parseInt s = foldl (\<lambda>acc ch. acc * 10 + (charCode ch - 48)) 0 s"

definition jsRem :: "int \<Rightarrow> int \<Rightarrow> int" where
  "jsRem a b = sgn a * (\<bar>a\<bar> mod \<bar>b\<bar>)"

function decimalDigits :: "int \<Rightarrow> string" where
  "decimalDigits n =
     (if n < 10 then [fromCharCode (48 + n)]
      else decimalDigits (n div 10) @ [fromCharCode (48 + n mod 10)])"
  by pat_completeness auto
termination
  by (relation "measure nat") auto

declare decimalDigits.simps [simp del]

definition numberToString :: "int \<Rightarrow> string" where
  "numberToString n = (if n < 0 then CHR ''-'' # decimalDigits (- n) else decimalDigits n)"

section \<open>Cell calculator: spreadsheet notation\<close>

text \<open>
  The \<open>do ... while (c >= 0)\<close> loop of \<open>cellToExcelNotation\<close>: the body runs once
  before the test, prepending one letter and replacing \<open>c\<close> by
  \<open>Math.floor(c / 26) - 1\<close>.
\<close>

function columnLetters :: "int \<Rightarrow> string \<Rightarrow> string" where
  "columnLetters c colStr =
     (let colStr' = fromCharCode (65 + jsRem c 26) # colStr;
          c' = c div 26 - 1
      in if c' \<ge> 0 then columnLetters c' colStr' else colStr')"
  by pat_completeness auto
termination
  by (relation "measure (\<lambda>(c, colStr). nat c)") auto

declare columnLetters.simps [simp del]

text \<open>
  \<open>row + 1\<close> is the first result of the notation code to leave the safe integers as
  the row grows: at row \<open>2^53\<close> the exact sum \<open>2^53 + 1\<close> is not a double. The sum is
  therefore rounded as the source rounds it, to the nearest double with ties to the even
  significand: \<open>roundToDouble\<close> is the identity up to \<open>2^53\<close> and keeps 53
  significant bits above (for magnitudes below \<open>2^1024\<close>, where doubles end). The
  other operations of the notation code stay exact: they agree with the source on safe
  integers, and the decimal \<open>toString\<close> also at \<open>2^53\<close> itself.
\<close>

function bitLength :: "int \<Rightarrow> nat" where
  "bitLength n = (if n \<le> 0 then 0 else Suc (bitLength (n div 2)))"
  by pat_completeness auto
termination
  by (relation "measure nat") auto

declare bitLength.simps [simp del]

definition roundToDouble :: "int \<Rightarrow> int" where
  "roundToDouble n =
     (if \<bar>n\<bar> \<le> 2 ^ 53 then n
      else (let ulp = 2 ^ (bitLength \<bar>n\<bar> - 53);
                q = \<bar>n\<bar> div ulp;
                r = \<bar>n\<bar> mod ulp;
                significand = (if ulp < 2 * r \<or> (2 * r = ulp \<and> odd q) then q + 1 else q)
            in sgn n * significand * ulp))"

definition cellToExcelNotation :: "int \<Rightarrow> int \<Rightarrow> string" where
  "cellToExcelNotation r c = columnLetters c [] @ numberToString (roundToDouble (r + 1))"

text \<open>
  \<open>/^([A-Z]+)(\d+)$/\<close>: the longest run of letters, then the longest run of digits,
  both non-empty, then the end of the input. The two classes are disjoint, so the greedy
  match is the only one.
\<close>

definition matchCell :: "string \<Rightarrow> (string \<times> string) option" where
  "matchCell s =
     (let colStr = takeWhile isUpperLetter s; rest = dropWhile isUpperLetter s;
          rowStr = takeWhile isDigit rest; rest' = dropWhile isDigit rest
      in if colStr \<noteq> [] \<and> rowStr \<noteq> [] \<and> rest' = [] then Some (colStr, rowStr) else None)"

definition excelNotationToCell :: "string \<Rightarrow> CellAddress option" where
  "excelNotationToCell notation =
     (case matchCell (toUpperCase notation) of
        None \<Rightarrow> None
      | Some (colStr, rowStr) \<Rightarrow>
          (let col = foldl (\<lambda>acc ch. acc * 26 + (charCode ch - 64)) 0 colStr - 1;
               r = parseInt rowStr - 1
           in if r < 0 \<or> col < 0 then None else Some \<lparr>row = r, column = col\<rparr>))"


section \<open>Grid manager (grid-manager.ts)\<close>

subsection \<open>Parsing a cell specification\<close>

text \<open>
  The result object of \<open>parseCellSpec\<close> is built in two shapes only,
  \<open>{success: true, cellSpan}\<close> and \<open>{success: false, error}\<close>: one constructor each.
\<close>

datatype CellSpecParseResult = ParseSuccess CellSpan | ParseFailure string

text \<open>
  \<open>/^(\d+)\s*,\s*(\d+)(?:\s*:\s*(\d+)\s*[xX]\s*(\d+))?$/\<close>. Each repetition is
  followed by a character outside its class (or by the end of the input), so the match,
  when there is one, takes every repetition at its longest. The result holds groups 1
  and 2 and, when the optional part took part in the match, groups 3 and 4.
\<close>

definition matchSpanSuffix :: "string \<Rightarrow> (string \<times> string) option" where
  "matchSpanSuffix s =
     (let s1 = dropWhile isSpace s
      in if s1 = [] \<or> hd s1 \<noteq> CHR '':'' then None
         else (let s2 = dropWhile isSpace (tl s1);
                   rowSpanStr = takeWhile isDigit s2;
                   s3 = dropWhile isSpace (dropWhile isDigit s2)
               in if rowSpanStr = [] \<or> s3 = [] \<or> (hd s3 \<noteq> CHR ''x'' \<and> hd s3 \<noteq> CHR ''X'')
                  then None
                  else (let s4 = dropWhile isSpace (tl s3);
                            colSpanStr = takeWhile isDigit s4
                        in if colSpanStr = [] \<or> dropWhile isDigit s4 \<noteq> [] then None
                           else Some (rowSpanStr, colSpanStr))))"

definition matchCoord :: "string \<Rightarrow> (string \<times> string \<times> (string \<times> string) option) option" where
  "matchCoord s =
     (let rowStr = takeWhile isDigit s;
          s1 = dropWhile isSpace (dropWhile isDigit s)
      in if rowStr = [] \<or> s1 = [] \<or> hd s1 \<noteq> CHR '','' then None
         else (let s2 = dropWhile isSpace (tl s1);
                   colStr = takeWhile isDigit s2;
                   s3 = dropWhile isDigit s2
               in if colStr = [] then None
                  else if s3 = [] then Some (rowStr, colStr, None)
                  else (case matchSpanSuffix s3 of
                          None \<Rightarrow> None
                        | Some g \<Rightarrow> Some (rowStr, colStr, Some g))))"

text \<open>\<open>/^([A-Z]+)(\d+)(?::([A-Z]+)(\d+))?$/\<close>, read the same way.\<close>

definition matchExcel :: "string \<Rightarrow> (string \<times> string \<times> (string \<times> string) option) option" where
  "matchExcel s =
     (let startColStr = takeWhile isUpperLetter s;
          s1 = dropWhile isUpperLetter s;
          startRowStr = takeWhile isDigit s1;
          s2 = dropWhile isDigit s1
      in if startColStr = [] \<or> startRowStr = [] then None
         else if s2 = [] then Some (startColStr, startRowStr, None)
         else if hd s2 \<noteq> CHR '':'' then None
         else (case matchCell (tl s2) of
                 None \<Rightarrow> None
               | Some g \<Rightarrow> Some (startColStr, startRowStr, Some g)))"

definition parseCellSpec :: "string \<Rightarrow> CellSpecParseResult" where
  "parseCellSpec spec =
     (let trimmed = toUpperCase (trim spec)
      in case matchCoord trimmed of
           Some (rowStr, colStr, spanStrs) \<Rightarrow>
             (let r = parseInt rowStr;
                  col = parseInt colStr;
                  rSpan = (case spanStrs of Some (rowSpanStr, colSpanStr) \<Rightarrow> parseInt rowSpanStr | None \<Rightarrow> 1);
                  cSpan = (case spanStrs of Some (rowSpanStr, colSpanStr) \<Rightarrow> parseInt colSpanStr | None \<Rightarrow> 1)
              in if rSpan < 1 \<or> cSpan < 1
                 then ParseFailure ''Span dimensions must be at least 1''
                 else ParseSuccess \<lparr>startRow = r, startColumn = col, rowSpan = rSpan, columnSpan = cSpan\<rparr>)
         | None \<Rightarrow>
             (case matchExcel trimmed of
                Some (startColStr, startRowStr, endStrs) \<Rightarrow>
                  (case excelNotationToCell (startColStr @ startRowStr) of
                     None \<Rightarrow> ParseFailure (''Invalid cell notation: '' @ startColStr @ startRowStr)
                   | Some startCell \<Rightarrow>
                       (case endStrs of
                          Some (endColStr, endRowStr) \<Rightarrow>
                            (case excelNotationToCell (endColStr @ endRowStr) of
                               None \<Rightarrow> ParseFailure (''Invalid cell notation: '' @ endColStr @ endRowStr)
                             | Some endCell \<Rightarrow>
                                 (let minRow = min (row startCell) (row endCell);
                                      minCol = min (column startCell) (column endCell);
                                      maxRow = max (row startCell) (row endCell);
                                      maxCol = max (column startCell) (column endCell)
                                  in ParseSuccess \<lparr>startRow = minRow, startColumn = minCol,
                                        rowSpan = maxRow - minRow + 1,
                                        columnSpan = maxCol - minCol + 1\<rparr>))
                        | None \<Rightarrow> ParseSuccess (singleCell (row startCell) (column startCell))))
              | None \<Rightarrow> ParseFailure (''Invalid cell specification: '' @ spec)))"


subsection \<open>Validation and search\<close>

text \<open>
  Likewise \<open>validateCellSpan\<close> returns \<open>{valid: true}\<close> or
  \<open>{valid: false, error}\<close>; \<open>valid\<close> reads the flag.
\<close>

datatype ValidationResult = Valid | Invalid string











subsection \<open>Assignments\<close>

text \<open>
  The mutators stamp the new state with \<open>new Date().toISOString()\<close>; the clock reading
  is the explicit argument \<open>now\<close>.
\<close>

definition assignWindowToGrid :: "string \<Rightarrow> CellSpan \<Rightarrow> string \<Rightarrow> GridState \<Rightarrow> GridState" where
  "assignWindowToGrid wid span now gridState =
     (let newAssignments = filter (\<lambda>a. windowId a \<noteq> wid) (assignments gridState)
      in gridState\<lparr>assignments := newAssignments @ [\<lparr>windowId = wid, cellSpan = span, zIndex = None\<rparr>],
                    lastUpdated := now\<rparr>)"

definition removeWindowFromGrid :: "string \<Rightarrow> string \<Rightarrow> GridState \<Rightarrow> GridState" where
  "removeWindowFromGrid wid now gridState =
     gridState\<lparr>assignments := filter (\<lambda>a. windowId a \<noteq> wid) (assignments gridState),
                lastUpdated := now\<rparr>"

definition getWindowCellSpan :: "string \<Rightarrow> GridState \<Rightarrow> CellSpan option" where
  "getWindowCellSpan wid gridState =
     (case find (\<lambda>a. windowId a = wid) (assignments gridState) of
        Some assignment \<Rightarrow> Some (cellSpan assignment)
      | None \<Rightarrow> None)"

text \<open>
  \<open>swapWindowPositions\<close> throws \<open>new Error(message)\<close> when a window has no
  assignment; the exception is the left summand of its result.
\<close>

datatype GridError = Error string

definition swapWindowPositions :: "string \<Rightarrow> string \<Rightarrow> string \<Rightarrow> GridState \<Rightarrow> GridError + GridState" where
  "swapWindowPositions windowId1 windowId2 now gridState =
     (case (getWindowCellSpan windowId1 gridState, getWindowCellSpan windowId2 gridState) of
        (Some span1, Some span2) \<Rightarrow>
          Inr (gridState\<lparr>assignments :=
                   map (\<lambda>a. if windowId a = windowId1 then a\<lparr>cellSpan := span2\<rparr>
                            else if windowId a = windowId2 then a\<lparr>cellSpan := span1\<rparr>
                            else a) (assignments gridState),
                 lastUpdated := now\<rparr>)
      | _ \<Rightarrow> Inl (Error ''Both windows must have grid assignments to swap''))"

subsection \<open>Example configurations and states\<close>

text \<open>A 4 by 5 grid with margins, on the default gaps.\<close>

definition marginConfig :: GridConfig where
  "marginConfig = DEFAULT_GRID_CONFIG\<lparr>rows := 4, columns := 5, marginTop := 10, marginBottom := 10,
      marginLeft := 20, marginRight := 20\<rparr>"

text \<open>A monitor of 100 by 100 pixels and a two-column grid with a gap of half a pixel.\<close>

definition smallMonitor :: MonitorInfo where
  "smallMonitor = \<lparr>workAreaX = 0, workAreaY = 0, workAreaWidth = 100, workAreaHeight = 100\<rparr>"

definition halfGapConfig :: GridConfig where
  "halfGapConfig = DEFAULT_GRID_CONFIG\<lparr>columns := 2, cellGapHorizontal := 1 / 2\<rparr>"

definition emptyState :: GridState where
  "emptyState = \<lparr>desktopIndex = 0, config = DEFAULT_GRID_CONFIG, assignments = [],
                  lastUpdated = ''2025-01-01T00:00:00.000Z''\<rparr>"

definition twoWindowState :: GridState where
  "twoWindowState =
     assignWindowToGrid ''win-2'' (singleCell 0 1) ''2025-01-01T00:00:02.000Z''
       (assignWindowToGrid ''win-1'' (singleCell 0 0) ''2025-01-01T00:00:01.000Z'' emptyState)"


section \<open>Verified properties\<close>

subsection \<open>Cell sizes and pixel rectangles\<close>

lemma floor_cell_fits:
  fixes d :: rat and n :: int
  assumes "n \<ge> 1" and "of_int \<lfloor>d\<rfloor> = d"
  shows "of_int \<lfloor>d / of_int n\<rfloor> * of_int n \<le> d"
    and "d - of_int \<lfloor>d / of_int n\<rfloor> * of_int n \<le> of_int n - 1"
proof -
  define k where "k = \<lfloor>d\<rfloor>"
  have d: "d = of_int k" using assms(2) by (simp add: k_def)
  have n0: "0 < n" using assms(1) by simp
  have fl: "\<lfloor>(of_int k :: rat) / of_int n\<rfloor> = k div n"
    by (rule floor_divide_of_int_eq)
  have eq: "k - (k div n) * n = k mod n"
    by (simp add: minus_div_mult_eq_mod)
  have "0 \<le> k mod n" "k mod n < n" using n0 by simp_all
  with eq have a: "(k div n) * n \<le> k" and b: "k - (k div n) * n \<le> n - 1" by linarith+
  from a have "(of_int ((k div n) * n) :: rat) \<le> of_int k" by (simp only: of_int_le_iff)
  then show "of_int \<lfloor>d / of_int n\<rfloor> * of_int n \<le> d"
    unfolding d fl by simp
  from b have "(of_int (k - (k div n) * n) :: rat) \<le> of_int (n - 1)" by (simp only: of_int_le_iff)
  then show "d - of_int \<lfloor>d / of_int n\<rfloor> * of_int n \<le> of_int n - 1"
    unfolding d fl by simp
qed

lemma exactAxis_integer:
  "exactAxis extent marginBefore marginAfter gap count \<Longrightarrow>
     of_int \<lfloor>extent - marginBefore - marginAfter - (of_int count - 1) * gap\<rfloor>
       = extent - marginBefore - marginAfter - (of_int count - 1) * gap"
  by (simp add: exactAxis_def Let_def isSafeInteger_def)

text \<open>
  Claim C8 (amended). \<open>calculateSingleCellSize\<close> computes the cell size as the floor
  of (available - total gap) / count on each axis, and \<open>calculateRemainingSpace\<close>
  returns available - (cell size * count + total gap). For every configuration with at
  least one row and one column in which every value computed along both axes is a safe
  integer (so that the source's arithmetic is exact), the cells and gaps together never
  exceed the available space and the remainder lies between 0 and count - 1. On the
  1920 by 1040 work area with the default 3 by 3 grid (4 pixel gaps, no margins) the
  cell is 637 by 344 and the remainder is 1 and 0.
\<close>

theorem calculateSingleCellSize_never_overshoots:
  "(rows cfg \<ge> 1 \<and> columns cfg \<ge> 1 \<longrightarrow>
     (let availableWidth = workAreaWidth monitor - marginLeft cfg - marginRight cfg;
          availableHeight = workAreaHeight monitor - marginTop cfg - marginBottom cfg;
          totalHGap = (of_int (columns cfg) - 1) * cellGapHorizontal cfg;
          totalVGap = (of_int (rows cfg) - 1) * cellGapVertical cfg;
          cellSize = calculateSingleCellSize cfg monitor;
          remaining = calculateRemainingSpace cfg monitor
      in width cellSize = of_int \<lfloor>(availableWidth - totalHGap) / of_int (columns cfg)\<rfloor> \<and>
         height cellSize = of_int \<lfloor>(availableHeight - totalVGap) / of_int (rows cfg)\<rfloor> \<and>
         horizontal remaining =
           availableWidth - (width cellSize * of_int (columns cfg) + totalHGap) \<and>
         vertical remaining =
           availableHeight - (height cellSize * of_int (rows cfg) + totalVGap))) \<and>
   (rows cfg \<ge> 1 \<and> columns cfg \<ge> 1 \<and>
    exactAxis (workAreaWidth monitor) (marginLeft cfg) (marginRight cfg)
              (cellGapHorizontal cfg) (columns cfg) \<and>
    exactAxis (workAreaHeight monitor) (marginTop cfg) (marginBottom cfg)
              (cellGapVertical cfg) (rows cfg) \<longrightarrow>
     (let availableWidth = workAreaWidth monitor - marginLeft cfg - marginRight cfg;
          availableHeight = workAreaHeight monitor - marginTop cfg - marginBottom cfg;
          totalHGap = (of_int (columns cfg) - 1) * cellGapHorizontal cfg;
          totalVGap = (of_int (rows cfg) - 1) * cellGapVertical cfg;
          cellSize = calculateSingleCellSize cfg monitor;
          remaining = calculateRemainingSpace cfg monitor
      in width cellSize * of_int (columns cfg) + totalHGap \<le> availableWidth \<and>
         height cellSize * of_int (rows cfg) + totalVGap \<le> availableHeight \<and>
         0 \<le> horizontal remaining \<and> horizontal remaining \<le> of_int (columns cfg) - 1 \<and>
         0 \<le> vertical remaining \<and> vertical remaining \<le> of_int (rows cfg) - 1)) \<and>
   calculateSingleCellSize DEFAULT_GRID_CONFIG mockMonitor = \<lparr>width = 637, height = 344\<rparr> \<and>
   calculateRemainingSpace DEFAULT_GRID_CONFIG mockMonitor = \<lparr>horizontal = 1, vertical = 0\<rparr>"
proof (intro conjI impI)
  show "let availableWidth = workAreaWidth monitor - marginLeft cfg - marginRight cfg;
          availableHeight = workAreaHeight monitor - marginTop cfg - marginBottom cfg;
          totalHGap = (of_int (columns cfg) - 1) * cellGapHorizontal cfg;
          totalVGap = (of_int (rows cfg) - 1) * cellGapVertical cfg;
          cellSize = calculateSingleCellSize cfg monitor;
          remaining = calculateRemainingSpace cfg monitor
      in width cellSize = of_int \<lfloor>(availableWidth - totalHGap) / of_int (columns cfg)\<rfloor> \<and>
         height cellSize = of_int \<lfloor>(availableHeight - totalVGap) / of_int (rows cfg)\<rfloor> \<and>
         horizontal remaining =
           availableWidth - (width cellSize * of_int (columns cfg) + totalHGap) \<and>
         vertical remaining =
           availableHeight - (height cellSize * of_int (rows cfg) + totalVGap)"
    by (simp add: Let_def calculateSingleCellSize_def calculateRemainingSpace_def)
next
  assume h: "rows cfg \<ge> 1 \<and> columns cfg \<ge> 1 \<and>
    exactAxis (workAreaWidth monitor) (marginLeft cfg) (marginRight cfg)
              (cellGapHorizontal cfg) (columns cfg) \<and>
    exactAxis (workAreaHeight monitor) (marginTop cfg) (marginBottom cfg)
              (cellGapVertical cfg) (rows cfg)"
  define dw where "dw = workAreaWidth monitor - marginLeft cfg - marginRight cfg -
                        (of_int (columns cfg) - 1) * cellGapHorizontal cfg"
  define dh where "dh = workAreaHeight monitor - marginTop cfg - marginBottom cfg -
                        (of_int (rows cfg) - 1) * cellGapVertical cfg"
  from h have c: "columns cfg \<ge> 1" and r: "rows cfg \<ge> 1" by simp_all
  from h have iw: "of_int \<lfloor>dw\<rfloor> = dw" and ih: "of_int \<lfloor>dh\<rfloor> = dh"
    unfolding dw_def dh_def by (simp_all add: exactAxis_integer)
  note fw = floor_cell_fits [OF c iw] and fh = floor_cell_fits [OF r ih]
  show "let availableWidth = workAreaWidth monitor - marginLeft cfg - marginRight cfg;
          availableHeight = workAreaHeight monitor - marginTop cfg - marginBottom cfg;
          totalHGap = (of_int (columns cfg) - 1) * cellGapHorizontal cfg;
          totalVGap = (of_int (rows cfg) - 1) * cellGapVertical cfg;
          cellSize = calculateSingleCellSize cfg monitor;
          remaining = calculateRemainingSpace cfg monitor
      in width cellSize * of_int (columns cfg) + totalHGap \<le> availableWidth \<and>
         height cellSize * of_int (rows cfg) + totalVGap \<le> availableHeight \<and>
         0 \<le> horizontal remaining \<and> horizontal remaining \<le> of_int (columns cfg) - 1 \<and>
         0 \<le> vertical remaining \<and> vertical remaining \<le> of_int (rows cfg) - 1"
    unfolding Let_def calculateSingleCellSize_def calculateRemainingSpace_def
    using fw fh unfolding dw_def dh_def by simp
next
  show "calculateSingleCellSize DEFAULT_GRID_CONFIG mockMonitor = \<lparr>width = 637, height = 344\<rparr>"
    by code_simp
next
  show "calculateRemainingSpace DEFAULT_GRID_CONFIG mockMonitor = \<lparr>horizontal = 1, vertical = 0\<rparr>"
    by code_simp
qed

theorem calculateSingleCellSize_never_overshoots_witness:
  "rows marginConfig \<ge> 1 \<and> columns marginConfig \<ge> 1 \<and>
   exactAxis (workAreaWidth mockMonitor) (marginLeft marginConfig) (marginRight marginConfig)
             (cellGapHorizontal marginConfig) (columns marginConfig) \<and>
   exactAxis (workAreaHeight mockMonitor) (marginTop marginConfig) (marginBottom marginConfig)
             (cellGapVertical marginConfig) (rows marginConfig) \<and>
   calculateSingleCellSize marginConfig mockMonitor = \<lparr>width = 372, height = 252\<rparr> \<and>
   width (calculateSingleCellSize marginConfig mockMonitor) * of_int (columns marginConfig) +
     (of_int (columns marginConfig) - 1) * cellGapHorizontal marginConfig
     \<le> workAreaWidth mockMonitor - marginLeft marginConfig - marginRight marginConfig \<and>
   0 \<le> horizontal (calculateRemainingSpace marginConfig mockMonitor) \<and>
   horizontal (calculateRemainingSpace marginConfig mockMonitor) \<le> of_int (columns marginConfig) - 1 \<and>
   0 \<le> vertical (calculateRemainingSpace marginConfig mockMonitor) \<and>
   vertical (calculateRemainingSpace marginConfig mockMonitor) \<le> of_int (rows marginConfig) - 1"
proof -
  have counts: "rows marginConfig \<ge> 1 \<and> columns marginConfig \<ge> 1"
    by (simp add: marginConfig_def DEFAULT_GRID_CONFIG_def)
  have w: "exactAxis (workAreaWidth mockMonitor) (marginLeft marginConfig) (marginRight marginConfig)
             (cellGapHorizontal marginConfig) (columns marginConfig)"
    by code_simp
  have h: "exactAxis (workAreaHeight mockMonitor) (marginTop marginConfig) (marginBottom marginConfig)
             (cellGapVertical marginConfig) (rows marginConfig)"
    by code_simp
  have cell: "calculateSingleCellSize marginConfig mockMonitor = \<lparr>width = 372, height = 252\<rparr>"
    by code_simp
  from calculateSingleCellSize_never_overshoots
      [of marginConfig mockMonitor, THEN conjunct2, THEN conjunct1, unfolded Let_def, rule_format]
    counts w h
  have "width (calculateSingleCellSize marginConfig mockMonitor) * of_int (columns marginConfig) +
     (of_int (columns marginConfig) - 1) * cellGapHorizontal marginConfig
     \<le> workAreaWidth mockMonitor - marginLeft marginConfig - marginRight marginConfig \<and>
   0 \<le> horizontal (calculateRemainingSpace marginConfig mockMonitor) \<and>
   horizontal (calculateRemainingSpace marginConfig mockMonitor) \<le> of_int (columns marginConfig) - 1 \<and>
   0 \<le> vertical (calculateRemainingSpace marginConfig mockMonitor) \<and>
   vertical (calculateRemainingSpace marginConfig mockMonitor) \<le> of_int (rows marginConfig) - 1"
    by blast
  with counts w h cell show ?thesis by blast
qed

text \<open>
  As first stated, for every configuration with at least one row and one column, the
  claim fails: the source accepts any number as a gap, and on a width of 100 with two
  columns and a gap of one half the cell is 49 wide (the floor of 99.5 / 2), 98.5 pixels
  are used and the remainder is 1.5, above count - 1 = 1. Every step is exact on doubles.
\<close>

theorem calculateRemainingSpace_fraction_counterexample:
  "rows halfGapConfig \<ge> 1 \<and> columns halfGapConfig \<ge> 1 \<and>
   width (calculateSingleCellSize halfGapConfig smallMonitor) = 49 \<and>
   horizontal (calculateRemainingSpace halfGapConfig smallMonitor) = 3 / 2 \<and>
   of_int (columns halfGapConfig) - 1 < horizontal (calculateRemainingSpace halfGapConfig smallMonitor)"
  by code_simp

text \<open>
  Claim C9. For every span, configuration (with a non-zero number of rows and columns)
  and monitor, the rectangle of \<open>calculateCellRect\<close> starts at work-area origin +
  margin + start index * (cell size + gap) and measures span * cell size + (span - 1) * gap
  on each axis, the cell size being that of \<open>calculateSingleCellSize\<close>. A 2 by 2 span
  at (0,0) on the 1920 by 1040 work area with the default grid is 1278 by 692 at (0,0).
\<close>

theorem calculateCellRect_formula:
  "(rows cfg \<noteq> 0 \<and> columns cfg \<noteq> 0 \<longrightarrow>
     (let cellSize = calculateSingleCellSize cfg monitor;
          rect = calculateCellRect span cfg monitor
      in rect_x rect = workAreaX monitor + marginLeft cfg +
                       of_int (startColumn span) * (width cellSize + cellGapHorizontal cfg) \<and>
         rect_y rect = workAreaY monitor + marginTop cfg +
                       of_int (startRow span) * (height cellSize + cellGapVertical cfg) \<and>
         rect_width rect = of_int (columnSpan span) * width cellSize +
                       (of_int (columnSpan span) - 1) * cellGapHorizontal cfg \<and>
         rect_height rect = of_int (rowSpan span) * height cellSize +
                       (of_int (rowSpan span) - 1) * cellGapVertical cfg)) \<and>
   calculateCellRect \<lparr>startRow = 0, startColumn = 0, rowSpan = 2, columnSpan = 2\<rparr>
       DEFAULT_GRID_CONFIG mockMonitor
     = \<lparr>rect_x = 0, rect_y = 0, rect_width = 1278, rect_height = 692\<rparr>"
proof (intro conjI impI)
  show "calculateCellRect \<lparr>startRow = 0, startColumn = 0, rowSpan = 2, columnSpan = 2\<rparr>
       DEFAULT_GRID_CONFIG mockMonitor
     = \<lparr>rect_x = 0, rect_y = 0, rect_width = 1278, rect_height = 692\<rparr>"
    by code_simp
qed (simp add: calculateCellRect_def calculateSingleCellSize_def Let_def)

theorem calculateCellRect_formula_witness:
  "rows marginConfig \<noteq> 0 \<and> columns marginConfig \<noteq> 0 \<and>
   calculateSingleCellSize marginConfig mockMonitor = \<lparr>width = 372, height = 252\<rparr> \<and>
   calculateCellRect \<lparr>startRow = 1, startColumn = 2, rowSpan = 2, columnSpan = 3\<rparr> marginConfig mockMonitor
     = \<lparr>rect_x = 20 + 2 * (372 + 4), rect_y = 10 + 1 * (252 + 4),
        rect_width = 3 * 372 + 2 * 4, rect_height = 2 * 252 + 1 * 4\<rparr>"
proof -
  have counts: "rows marginConfig \<noteq> 0 \<and> columns marginConfig \<noteq> 0"
    by (simp add: marginConfig_def DEFAULT_GRID_CONFIG_def)
  have cell: "calculateSingleCellSize marginConfig mockMonitor = \<lparr>width = 372, height = 252\<rparr>"
    by code_simp
  have fields: "workAreaX mockMonitor = 0" "workAreaY mockMonitor = 0"
    "marginLeft marginConfig = 20" "marginTop marginConfig = 10"
    "cellGapHorizontal marginConfig = 4" "cellGapVertical marginConfig = 4"
    by (simp_all add: marginConfig_def DEFAULT_GRID_CONFIG_def mockMonitor_def)
  from calculateCellRect_formula [of marginConfig mockMonitor
      "\<lparr>startRow = 1, startColumn = 2, rowSpan = 2, columnSpan = 3\<rparr>", THEN conjunct1] counts
  have "calculateCellRect \<lparr>startRow = 1, startColumn = 2, rowSpan = 2, columnSpan = 3\<rparr> marginConfig mockMonitor
     = \<lparr>rect_x = 20 + 2 * (372 + 4), rect_y = 10 + 1 * (252 + 4),
        rect_width = 3 * 372 + 2 * 4, rect_height = 2 * 252 + 1 * 4\<rparr>"
    by (simp add: Let_def cell fields)
  with counts cell show ?thesis by simp
qed

subsection \<open>Assignment and swap\<close>

lemma find_windowId_map:
  assumes "\<And>a. windowId (f a) = windowId a"
  shows "find (\<lambda>a. windowId a = w) (map f as) = map_option f (find (\<lambda>a. windowId a = w) as)"
  by (induction as) (simp_all add: assms)

lemma find_windowId_Some:
  "find (\<lambda>a. windowId a = w) as = Some a \<Longrightarrow> windowId a = w"
  by (induction as) (auto split: if_splits)

text \<open>
  Claim C6. For every state, window id and span, \<open>assignWindowToGrid\<close> returns the
  old assignments without those of that id, followed by the new assignment; the new
  state therefore holds exactly one assignment for the id, with the new span, and
  \<open>lastUpdated\<close> is the new clock reading. Assigning the same id twice leaves the
  assignments that the last assignment alone would have left.
\<close>

theorem assignWindowToGrid_single_assignment:
  "(let newState = assignWindowToGrid wid span now gridState;
        newAssignment = \<lparr>windowId = wid, cellSpan = span, zIndex = None\<rparr>
    in assignments newState =
         filter (\<lambda>a. windowId a \<noteq> wid) (assignments gridState) @ [newAssignment] \<and>
       filter (\<lambda>a. windowId a = wid) (assignments newState) = [newAssignment] \<and>
       getWindowCellSpan wid newState = Some span \<and>
       lastUpdated newState = now \<and>
       config newState = config gridState \<and>
       desktopIndex newState = desktopIndex gridState \<and>
       assignments (assignWindowToGrid wid span' now' newState) =
         assignments (assignWindowToGrid wid span' now' gridState))"
proof -
  have f1: "filter (\<lambda>a. windowId a = wid) (filter (\<lambda>a. windowId a \<noteq> wid) as) = []" for as
    by (induction as) simp_all
  have f2: "filter (\<lambda>a. windowId a \<noteq> wid) (filter (\<lambda>a. windowId a \<noteq> wid) as)
              = filter (\<lambda>a. windowId a \<noteq> wid) as" for as
    by (induction as) simp_all
  have f3: "find (\<lambda>a. windowId a = wid) (filter (\<lambda>a. windowId a \<noteq> wid) as @ [b])
              = (if windowId b = wid then Some b else None)" for as b
    by (induction as) simp_all
  show ?thesis
    by (simp add: assignWindowToGrid_def getWindowCellSpan_def Let_def f1 f2 f3)
qed

theorem assignWindowToGrid_single_assignment_witness:
  "assignments (assignWindowToGrid ''win-1'' (singleCell 2 2) ''2025-01-01T00:00:03.000Z'' twoWindowState)
     = [\<lparr>windowId = ''win-2'', cellSpan = singleCell 0 1, zIndex = None\<rparr>,
        \<lparr>windowId = ''win-1'', cellSpan = singleCell 2 2, zIndex = None\<rparr>] \<and>
   getWindowCellSpan ''win-1''
       (assignWindowToGrid ''win-1'' (singleCell 2 2) ''2025-01-01T00:00:03.000Z'' twoWindowState)
     = Some (singleCell 2 2)"
  using assignWindowToGrid_single_assignment
    [of "''win-1''" "singleCell 2 2" "''2025-01-01T00:00:03.000Z''" twoWindowState]
  by (simp add: Let_def twoWindowState_def emptyState_def assignWindowToGrid_def)

text \<open>
  Claim C7. When both ids have an assignment, \<open>swapWindowPositions\<close> returns a state
  in which the first id holds the second one's former span and the second id holds the
  first one's, with the same number of assignments, the same window ids in the same
  order, and every assignment of a third window unchanged. When either id has no
  assignment it raises the precondition error and returns no state at all.
\<close>

theorem swapWindowPositions_exchanges_or_fails:
  "(getWindowCellSpan windowId1 gridState = Some span1 \<and>
    getWindowCellSpan windowId2 gridState = Some span2 \<longrightarrow>
      (\<exists>newState. swapWindowPositions windowId1 windowId2 now gridState = Inr newState \<and>
         getWindowCellSpan windowId1 newState = Some span2 \<and>
         getWindowCellSpan windowId2 newState = Some span1 \<and>
         length (assignments newState) = length (assignments gridState) \<and>
         map windowId (assignments newState) = map windowId (assignments gridState) \<and>
         (\<forall>i < length (assignments gridState).
            windowId (assignments gridState ! i) \<noteq> windowId1 \<and>
            windowId (assignments gridState ! i) \<noteq> windowId2 \<longrightarrow>
            assignments newState ! i = assignments gridState ! i))) \<and>
   (getWindowCellSpan windowId1 gridState = None \<or>
    getWindowCellSpan windowId2 gridState = None \<longrightarrow>
      swapWindowPositions windowId1 windowId2 now gridState =
        Inl (Error ''Both windows must have grid assignments to swap''))"
proof (intro conjI impI)
  assume h: "getWindowCellSpan windowId1 gridState = Some span1 \<and>
             getWindowCellSpan windowId2 gridState = Some span2"
  define f :: "CellAssignment \<Rightarrow> CellAssignment" where "f = (\<lambda>a. if windowId a = windowId1 then a\<lparr>cellSpan := span2\<rparr>
                            else if windowId a = windowId2 then a\<lparr>cellSpan := span1\<rparr> else a)"
  define newState where
    "newState = gridState\<lparr>assignments := map f (assignments gridState), lastUpdated := now\<rparr>"
  have fid: "windowId (f a) = windowId a" for a by (simp add: f_def)
  from h obtain a1 a2 where
    a1: "find (\<lambda>a. windowId a = windowId1) (assignments gridState) = Some a1" "cellSpan a1 = span1" and
    a2: "find (\<lambda>a. windowId a = windowId2) (assignments gridState) = Some a2" "cellSpan a2 = span2"
    by (auto simp: getWindowCellSpan_def split: option.splits)
  have w1: "windowId a1 = windowId1" and w2: "windowId a2 = windowId2"
    using a1(1) a2(1) by (auto dest: find_windowId_Some)
  have sw: "swapWindowPositions windowId1 windowId2 now gridState = Inr newState"
    using h by (simp add: swapWindowPositions_def newState_def f_def)
  have fnd: "find (\<lambda>a. windowId a = w) (map f (assignments gridState))
               = map_option f (find (\<lambda>a. windowId a = w) (assignments gridState))" for w
    by (rule find_windowId_map) (rule fid)
  have g1: "getWindowCellSpan windowId1 newState = Some span2"
    using a1 w1 by (simp add: getWindowCellSpan_def newState_def fnd) (simp add: f_def)
  have g2: "getWindowCellSpan windowId2 newState = Some span1"
  proof (cases "windowId1 = windowId2")
    case True
    with a1 a2 have "span1 = span2" by simp
    with g1 True show ?thesis by simp
  next
    case False
    then show ?thesis
      using a2 w2 by (simp add: getWindowCellSpan_def newState_def fnd) (simp add: f_def)
  qed
  have len: "length (assignments newState) = length (assignments gridState)"
    by (simp add: newState_def)
  have ids: "map windowId (assignments newState) = map windowId (assignments gridState)"
    by (simp add: newState_def fid)
  have others: "\<forall>i < length (assignments gridState).
            windowId (assignments gridState ! i) \<noteq> windowId1 \<and>
            windowId (assignments gridState ! i) \<noteq> windowId2 \<longrightarrow>
            assignments newState ! i = assignments gridState ! i"
    by (simp add: newState_def f_def)
  from sw g1 g2 len ids others
  show "\<exists>newState. swapWindowPositions windowId1 windowId2 now gridState = Inr newState \<and>
         getWindowCellSpan windowId1 newState = Some span2 \<and>
         getWindowCellSpan windowId2 newState = Some span1 \<and>
         length (assignments newState) = length (assignments gridState) \<and>
         map windowId (assignments newState) = map windowId (assignments gridState) \<and>
         (\<forall>i < length (assignments gridState).
            windowId (assignments gridState ! i) \<noteq> windowId1 \<and>
            windowId (assignments gridState ! i) \<noteq> windowId2 \<longrightarrow>
            assignments newState ! i = assignments gridState ! i)"
    by blast
next
  assume "getWindowCellSpan windowId1 gridState = None \<or>
          getWindowCellSpan windowId2 gridState = None"
  then show "swapWindowPositions windowId1 windowId2 now gridState =
        Inl (Error ''Both windows must have grid assignments to swap'')"
    by (auto simp: swapWindowPositions_def split: option.splits)
qed

theorem swapWindowPositions_exchanges_or_fails_witness:
  "getWindowCellSpan ''win-1'' twoWindowState = Some (singleCell 0 0) \<and>
   getWindowCellSpan ''win-2'' twoWindowState = Some (singleCell 0 1) \<and>
   getWindowCellSpan ''win-3'' twoWindowState = None \<and>
   (\<exists>newState. swapWindowPositions ''win-1'' ''win-2'' ''2025-01-01T00:00:03.000Z'' twoWindowState
        = Inr newState \<and>
      getWindowCellSpan ''win-1'' newState = Some (singleCell 0 1) \<and>
      getWindowCellSpan ''win-2'' newState = Some (singleCell 0 0) \<and>
      length (assignments newState) = 2) \<and>
   swapWindowPositions ''win-1'' ''win-3'' ''2025-01-01T00:00:03.000Z'' twoWindowState
     = Inl (Error ''Both windows must have grid assignments to swap'')"
proof -
  have g1: "getWindowCellSpan ''win-1'' twoWindowState = Some (singleCell 0 0)"
    by (simp add: getWindowCellSpan_def twoWindowState_def emptyState_def assignWindowToGrid_def)
  have g2: "getWindowCellSpan ''win-2'' twoWindowState = Some (singleCell 0 1)"
    by (simp add: getWindowCellSpan_def twoWindowState_def emptyState_def assignWindowToGrid_def)
  have g3: "getWindowCellSpan ''win-3'' twoWindowState = None"
    by (simp add: getWindowCellSpan_def twoWindowState_def emptyState_def assignWindowToGrid_def)
  have len: "length (assignments twoWindowState) = 2"
    by (simp add: twoWindowState_def emptyState_def assignWindowToGrid_def)
  note ok = swapWindowPositions_exchanges_or_fails
      [of "''win-1''" twoWindowState "singleCell 0 0" "''win-2''" "singleCell 0 1"
          "''2025-01-01T00:00:03.000Z''", THEN conjunct1, rule_format, OF conjI, OF g1 g2]
  note fails = swapWindowPositions_exchanges_or_fails
      [of "''win-1''" twoWindowState _ "''win-3''" _ "''2025-01-01T00:00:03.000Z''",
       THEN conjunct2, rule_format, OF disjI2, OF g3]
  from ok len have "\<exists>newState. swapWindowPositions ''win-1'' ''win-2'' ''2025-01-01T00:00:03.000Z'' twoWindowState
        = Inr newState \<and>
      getWindowCellSpan ''win-1'' newState = Some (singleCell 0 1) \<and>
      getWindowCellSpan ''win-2'' newState = Some (singleCell 0 0) \<and>
      length (assignments newState) = 2"
    by auto
  with g1 g2 g3 fails show ?thesis by blast
qed

subsection \<open>First-fit search\<close>














subsection \<open>Validation\<close>







subsection \<open>Spreadsheet notation\<close>

lemma charCode_fromCharCode:
  "0 \<le> n \<Longrightarrow> n < 256 \<Longrightarrow> charCode (fromCharCode n) = n"
  by (simp add: charCode_def fromCharCode_def)

lemma charCode_range: "0 \<le> charCode ch \<and> charCode ch < 256"
proof -
  have "charCode ch = charCode ch mod 256"
    by (simp add: charCode_def)
  moreover have "0 \<le> charCode ch mod 256 \<and> charCode ch mod 256 < 256"
    by simp
  ultimately show ?thesis by simp
qed

lemma span_run:
  assumes "\<forall>ch \<in> set xs. P ch" "ys = [] \<or> \<not> P (hd ys)"
  shows "takeWhile P (xs @ ys) = xs" and "dropWhile P (xs @ ys) = ys"
proof -
  from assms(2) have t: "takeWhile P ys = []" by (simp add: takeWhile_eq_Nil_iff)
  with assms(1) show "takeWhile P (xs @ ys) = xs" by simp
  from t have "dropWhile P ys = ys"
    using takeWhile_dropWhile_id [of P ys] by simp
  with assms(1) show "dropWhile P (xs @ ys) = ys" by simp
qed

lemma digit_not_letter: "isDigit ch \<Longrightarrow> \<not> isUpperLetter ch"
  by (simp add: isDigit_def isUpperLetter_def)

lemma matchCell_run:
  assumes "colStr \<noteq> []" "\<forall>ch \<in> set colStr. isUpperLetter ch"
      and "rowStr \<noteq> []" "\<forall>ch \<in> set rowStr. isDigit ch"
  shows "matchCell (colStr @ rowStr) = Some (colStr, rowStr)"
proof -
  from assms(3,4) have "\<not> isUpperLetter (hd rowStr)"
    by (simp add: digit_not_letter)
  then have l: "takeWhile isUpperLetter (colStr @ rowStr) = colStr"
               "dropWhile isUpperLetter (colStr @ rowStr) = rowStr"
    using span_run [of colStr isUpperLetter rowStr] assms(2) by simp_all
  have d: "takeWhile isDigit rowStr = rowStr" "dropWhile isDigit rowStr = []"
    using assms(4) by simp_all
  show ?thesis
    using assms(1,3,4) by (simp add: matchCell_def Let_def l d)
qed

lemma toUpperCase_fixed:
  "\<forall>ch \<in> set s. isUpperLetter ch \<or> isDigit ch \<Longrightarrow> toUpperCase s = s"
  unfolding toUpperCase_def
  by (rule map_idI) (auto simp: toUpperChar_def isUpperLetter_def isDigit_def)

text \<open>The value of a run of letters read as bijective base 26, and of digits as decimal.\<close>

lemma foldl_base:
  fixes b :: int
  shows "foldl (\<lambda>acc ch. acc * b + f ch) a s = a * b ^ length s + foldl (\<lambda>acc ch. acc * b + f ch) 0 s"
proof (induction s arbitrary: a)
  case Nil
  show ?case by simp
next
  case (Cons ch s)
  have "foldl (\<lambda>acc ch. acc * b + f ch) a (ch # s) = foldl (\<lambda>acc ch. acc * b + f ch) (a * b + f ch) s"
    by simp
  also have "\<dots> = (a * b + f ch) * b ^ length s + foldl (\<lambda>acc ch. acc * b + f ch) 0 s"
    by (rule Cons.IH)
  also have "foldl (\<lambda>acc ch. acc * b + f ch) 0 (ch # s)
               = f ch * b ^ length s + foldl (\<lambda>acc ch. acc * b + f ch) 0 s"
    using Cons.IH [of "f ch"] by simp
  ultimately show ?case by (simp add: algebra_simps)
qed

lemma base26_step:
  fixes c p v :: int
  shows "(c div 26 - 1 + 1) * (26 * p) + ((c mod 26 + 1) * p + v) = (c + 1) * p + v"
proof -
  define q m where "q = c div 26" and "m = c mod 26"
  have e: "26 * q + m = c" by (simp add: q_def m_def)
  have "(q - 1 + 1) * (26 * p) + ((m + 1) * p + v) = (26 * q + m + 1) * p + v"
    by (simp add: algebra_simps)
  then show ?thesis
    unfolding e unfolding q_def m_def .
qed

lemma jsRem_nonneg: "0 \<le> c \<Longrightarrow> jsRem c 26 = c mod 26"
  by (cases "c = 0") (simp_all add: jsRem_def)

lemma columnLetters_letters:
  "0 \<le> c \<Longrightarrow> \<forall>ch \<in> set acc. isUpperLetter ch \<Longrightarrow>
     columnLetters c acc \<noteq> [] \<and> (\<forall>ch \<in> set (columnLetters c acc). isUpperLetter ch)"
proof (induction c acc rule: columnLetters.induct)
  case (1 c colStr)
  let ?l = "fromCharCode (65 + jsRem c 26)"
  have m: "0 \<le> c mod 26" "c mod 26 < 26" by simp_all
  then have "charCode ?l = 65 + c mod 26"
    using "1.prems"(1) by (simp add: jsRem_nonneg charCode_fromCharCode)
  with m have l: "isUpperLetter ?l" by (simp add: isUpperLetter_def)
  show ?case
  proof (cases "c div 26 - 1 \<ge> 0")
    case True
    from l "1.prems"(2) have "\<forall>ch \<in> set (?l # colStr). isUpperLetter ch" by simp
    from "1.IH" [OF refl refl True True this] True show ?thesis
      by (simp add: columnLetters.simps [of c colStr] Let_def)
  next
    case False
    with l "1.prems"(2) show ?thesis
      by (simp add: columnLetters.simps [of c colStr] Let_def)
  qed
qed

lemma columnLetters_value:
  "0 \<le> c \<Longrightarrow>
     foldl (\<lambda>acc ch. acc * 26 + (charCode ch - 64)) 0 (columnLetters c acc)
       = (c + 1) * 26 ^ length acc + foldl (\<lambda>acc ch. acc * 26 + (charCode ch - 64)) 0 acc"
proof (induction c acc rule: columnLetters.induct)
  case (1 c colStr)
  let ?v = "\<lambda>s. foldl (\<lambda>acc ch. acc * 26 + (charCode ch - 64)) 0 s"
  let ?l = "fromCharCode (65 + jsRem c 26)"
  have m: "0 \<le> c mod 26" "c mod 26 < 26" by simp_all
  then have code: "charCode ?l - 64 = c mod 26 + 1"
    using "1.prems" by (simp add: jsRem_nonneg charCode_fromCharCode)
  have "?v (?l # colStr) = foldl (\<lambda>acc ch. acc * 26 + (charCode ch - 64)) (charCode ?l - 64) colStr"
    by simp
  also have "\<dots> = (charCode ?l - 64) * 26 ^ length colStr + ?v colStr"
    by (rule foldl_base)
  finally have cons: "?v (?l # colStr) = (c mod 26 + 1) * 26 ^ length colStr + ?v colStr"
    by (simp only: code)
  show ?case
  proof (cases "c div 26 - 1 \<ge> 0")
    case True
    from "1.IH" [OF refl refl True True]
    have "?v (columnLetters (c div 26 - 1) (?l # colStr))
            = (c div 26 - 1 + 1) * 26 ^ length (?l # colStr) + ?v (?l # colStr)" .
    also have "\<dots> = (c div 26 - 1 + 1) * (26 * 26 ^ length colStr) +
                      ((c mod 26 + 1) * 26 ^ length colStr + ?v colStr)"
      by (simp only: cons list.size power_Suc) simp
    also have "\<dots> = (c + 1) * 26 ^ length colStr + ?v colStr"
      by (rule base26_step)
    finally have "?v (columnLetters (c div 26 - 1) (?l # colStr))
                    = (c + 1) * 26 ^ length colStr + ?v colStr" .
    moreover have "columnLetters c colStr = columnLetters (c div 26 - 1) (?l # colStr)"
      using True by (simp add: columnLetters.simps [of c colStr] Let_def)
    ultimately show ?thesis by (simp only:)
  next
    case False
    moreover from "1.prems" have "0 \<le> c div 26" by simp
    ultimately have "c div 26 = 0" by simp
    then have "c mod 26 = c"
      using div_mult_mod_eq [of c 26] by simp
    with cons have "?v (?l # colStr) = (c + 1) * 26 ^ length colStr + ?v colStr"
      by (simp only:)
    moreover have "columnLetters c colStr = ?l # colStr"
      using False by (simp add: columnLetters.simps [of c colStr] Let_def)
    ultimately show ?thesis by (simp only:)
  qed
qed

lemma decimalDigits_digits:
  "0 \<le> n \<Longrightarrow> decimalDigits n \<noteq> [] \<and> (\<forall>ch \<in> set (decimalDigits n). isDigit ch)"
proof (induction n rule: decimalDigits.induct)
  case (1 n)
  have d: "isDigit (fromCharCode (48 + k))" if "0 \<le> k" "k < 10" for k
    using that by (simp add: isDigit_def charCode_fromCharCode)
  show ?case
  proof (cases "n < 10")
    case True
    with "1.prems" d [of n] show ?thesis by (simp add: decimalDigits.simps [of n])
  next
    case False
    with "1.prems" have "0 \<le> n div 10" by simp
    from "1.IH" [OF False this] d [of "n mod 10"] False show ?thesis
      by (simp add: decimalDigits.simps [of n])
  qed
qed

lemma parseInt_decimalDigits:
  "0 \<le> n \<Longrightarrow> parseInt (decimalDigits n) = n"
proof (induction n rule: decimalDigits.induct)
  case (1 n)
  have v: "charCode (fromCharCode (48 + k)) - 48 = k" if "0 \<le> k" "k < 10" for k
    using that by (simp add: charCode_fromCharCode)
  show ?case
  proof (cases "n < 10")
    case True
    with "1.prems" v [of n] show ?thesis
      by (simp add: decimalDigits.simps [of n] parseInt_def)
  next
    case False
    with "1.prems" have "0 \<le> n div 10" by simp
    from "1.IH" [OF False this] have "parseInt (decimalDigits (n div 10)) = n div 10" .
    with v [of "n mod 10"] False show ?thesis
      by (simp add: decimalDigits.simps [of n] parseInt_def)
  qed
qed

lemma roundToDouble_exact: "\<bar>n\<bar> \<le> 2 ^ 53 \<Longrightarrow> roundToDouble n = n"
  by (simp add: roundToDouble_def)

text \<open>
  Claim C1 (amended). For every integer row and column from 0 to \<open>2^53 - 1\<close> (the safe
  integers, on which the source computes exactly), parsing the notation that
  \<open>cellToExcelNotation\<close> writes gives back exactly that row and column.
\<close>

theorem excelNotation_round_trip:
  assumes "0 \<le> r" and "r < 2 ^ 53" and "0 \<le> c" and "c < 2 ^ 53"
  shows "excelNotationToCell (cellToExcelNotation r c) = Some \<lparr>row = r, column = c\<rparr>"
proof -
  let ?col = "columnLetters c []"
  let ?row = "decimalDigits (r + 1)"
  from assms(3) have col: "?col \<noteq> []" "\<forall>ch \<in> set ?col. isUpperLetter ch"
    using columnLetters_letters [of c "[]"] by simp_all
  from assms(1) have row: "?row \<noteq> []" "\<forall>ch \<in> set ?row. isDigit ch"
    using decimalDigits_digits [of "r + 1"] by simp_all
  from assms(1,2) have "roundToDouble (r + 1) = r + 1"
    by (intro roundToDouble_exact) simp
  with assms(1) have written: "cellToExcelNotation r c = ?col @ ?row"
    by (simp add: cellToExcelNotation_def numberToString_def)
  from col(2) row(2) have "toUpperCase (?col @ ?row) = ?col @ ?row"
    by (intro toUpperCase_fixed) auto
  moreover have "matchCell (?col @ ?row) = Some (?col, ?row)"
    using col row by (rule matchCell_run)
  moreover have "foldl (\<lambda>acc ch. acc * 26 + (charCode ch - 64)) 0 ?col = c + 1"
    using columnLetters_value [OF assms(3), of "[]"] by simp
  moreover have "parseInt ?row = r + 1"
    using assms(1) by (simp add: parseInt_decimalDigits)
  ultimately show ?thesis
    using assms by (simp add: excelNotationToCell_def written Let_def)
qed

theorem excelNotation_round_trip_witness:
  "(0::int) \<le> 99 \<and> (99::int) < 2 ^ 53 \<and> (0::int) \<le> 52 \<and> (52::int) < 2 ^ 53 \<and>
   cellToExcelNotation 99 52 = ''BA100'' \<and>
   excelNotationToCell ''BA100'' = Some \<lparr>row = 99, column = 52\<rparr>"
proof -
  have n: "cellToExcelNotation 99 52 = ''BA100''" by code_simp
  from excelNotation_round_trip [of 99 52] n
  have "excelNotationToCell ''BA100'' = Some \<lparr>row = 99, column = 52\<rparr>" by simp
  with n show ?thesis by simp
qed

text \<open>
  As first stated, for every row from 0 on, the claim fails at the first row beyond the
  safe integers. For row \<open>2^53 = 9007199254740992\<close> the sum \<open>row + 1\<close> rounds back to
  \<open>2^53\<close>, so the notation is \<open>A9007199254740992\<close>, whose row parses to
  \<open>2^53\<close> and, less one, to \<open>2^53 - 1\<close>: the row below the one written.
\<close>

theorem excelNotation_round_trip_counterexample:
  "cellToExcelNotation 9007199254740992 0 = ''A9007199254740992'' \<and>
   excelNotationToCell (cellToExcelNotation 9007199254740992 0)
     = Some \<lparr>row = 9007199254740991, column = 0\<rparr>"
  by code_simp

subsection \<open>Cell specifications\<close>

lemma matchCell_Some:
  assumes "matchCell s = Some (colStr, rowStr)"
  shows "s = colStr @ rowStr" "colStr \<noteq> []" "rowStr \<noteq> []"
        "\<forall>ch \<in> set colStr. isUpperLetter ch" "\<forall>ch \<in> set rowStr. isDigit ch"
proof -
  let ?rest = "dropWhile isUpperLetter s"
  from assms have c: "colStr = takeWhile isUpperLetter s" and r: "rowStr = takeWhile isDigit ?rest"
    and ne: "colStr \<noteq> []" "rowStr \<noteq> []" and e: "\<forall>ch \<in> set ?rest. isDigit ch"
    by (simp_all add: matchCell_def Let_def split: if_splits)
  from ne show "colStr \<noteq> []" "rowStr \<noteq> []" .
  from e have "takeWhile isDigit ?rest = ?rest" by simp
  with r have "?rest = rowStr" by simp
  moreover have "s = takeWhile isUpperLetter s @ ?rest" by simp
  ultimately show "s = colStr @ rowStr" using c by simp
  show "\<forall>ch \<in> set colStr. isUpperLetter ch"
    unfolding c by (blast dest: set_takeWhileD)
  show "\<forall>ch \<in> set rowStr. isDigit ch"
    unfolding r by (blast dest: set_takeWhileD)
qed

lemma toUpperChar_cases:
  "toUpperChar ch = ch \<or> (97 \<le> charCode ch \<and> charCode ch \<le> 122 \<and> isUpperLetter (toUpperChar ch))"
proof (cases "97 \<le> charCode ch \<and> charCode ch \<le> 122")
  case True
  then have "charCode (toUpperChar ch) = charCode ch - 32"
    by (simp add: toUpperChar_def charCode_fromCharCode)
  with True show ?thesis by (simp add: isUpperLetter_def)
next
  case False
  then have "toUpperChar ch = ch" by (auto simp: toUpperChar_def)
  then show ?thesis by simp
qed

lemma toUpperChar_letter_not_space:
  "isUpperLetter (toUpperChar ch) \<Longrightarrow> \<not> isSpace ch"
  using toUpperChar_cases [of ch] by (auto simp: isUpperLetter_def isSpace_def)

lemma toUpperChar_digit_not_space:
  "isDigit (toUpperChar ch) \<Longrightarrow> \<not> isSpace ch"
  using toUpperChar_cases [of ch] by (auto simp: isDigit_def isUpperLetter_def isSpace_def)

lemma toUpperCase_append: "toUpperCase (s @ t) = toUpperCase s @ toUpperCase t"
  by (simp add: toUpperCase_def)

lemma toUpperCase_colon: "toUpperCase (CHR '':'' # s) = CHR '':'' # toUpperCase s"
  by (simp add: toUpperCase_def toUpperChar_def charCode_def)

lemma trim_fixed:
  assumes "s \<noteq> []" "\<not> isSpace (hd s)" "\<not> isSpace (last s)"
  shows "trim s = s"
proof -
  from assms(1,2) have "dropWhile isSpace s = s" by (cases s) simp_all
  moreover from assms(1,3) have "dropWhile isSpace (rev s) = rev s"
    by (cases "rev s") (simp_all add: hd_rev [symmetric])
  ultimately show ?thesis by (simp add: trim_def)
qed

lemma matchCoord_letter_first:
  assumes "s \<noteq> []" "isUpperLetter (hd s)"
  shows "matchCoord s = None"
proof -
  from assms(2) have "\<not> isDigit (hd s)" by (auto dest: digit_not_letter)
  then have "takeWhile isDigit s = []" by (simp add: takeWhile_eq_Nil_iff)
  then show ?thesis by (simp add: matchCoord_def Let_def)
qed

lemma colon_class: "\<not> isDigit CHR '':''" "\<not> isUpperLetter CHR '':''"
  by (simp_all add: isDigit_def isUpperLetter_def charCode_def)

lemma matchExcel_range:
  assumes "c1 \<noteq> []" "\<forall>ch \<in> set c1. isUpperLetter ch" "r1 \<noteq> []" "\<forall>ch \<in> set r1. isDigit ch"
      and "c2 \<noteq> []" "\<forall>ch \<in> set c2. isUpperLetter ch" "r2 \<noteq> []" "\<forall>ch \<in> set r2. isDigit ch"
  shows "matchExcel (c1 @ r1 @ '':'' @ c2 @ r2) = Some (c1, r1, Some (c2, r2))"
proof -
  let ?tail = "CHR '':'' # c2 @ r2"
  from assms(3,4) have "\<not> isUpperLetter (hd (r1 @ ?tail))"
    by (simp add: digit_not_letter)
  then have l: "takeWhile isUpperLetter (c1 @ r1 @ ?tail) = c1"
               "dropWhile isUpperLetter (c1 @ r1 @ ?tail) = r1 @ ?tail"
    using span_run [of c1 isUpperLetter "r1 @ ?tail"] assms(2) by simp_all
  have d: "takeWhile isDigit (r1 @ ?tail) = r1" "dropWhile isDigit (r1 @ ?tail) = ?tail"
    using span_run [of r1 isDigit ?tail] assms(4) colon_class(1) by simp_all
  have m: "matchCell (c2 @ r2) = Some (c2, r2)"
    using assms(5-8) by (rule matchCell_run)
  show ?thesis
    using assms(1,3) by (simp add: matchExcel_def Let_def l d m)
qed

lemma excelNotationToCell_upper:
  assumes "matchCell (toUpperCase s) = Some (colStr, rowStr)"
  shows "excelNotationToCell (colStr @ rowStr) = excelNotationToCell s"
proof -
  note parts = matchCell_Some [OF assms]
  from parts(4,5) have "toUpperCase (colStr @ rowStr) = colStr @ rowStr"
    by (intro toUpperCase_fixed) auto
  with parts(1) show ?thesis by (simp add: excelNotationToCell_def)
qed

lemma parseCellSpec_range:
  assumes "excelNotationToCell s = Some a" "excelNotationToCell t = Some b"
  shows "parseCellSpec (s @ '':'' @ t) =
           ParseSuccess \<lparr>startRow = min (row a) (row b), startColumn = min (column a) (column b),
                         rowSpan = max (row a) (row b) - min (row a) (row b) + 1,
                         columnSpan = max (column a) (column b) - min (column a) (column b) + 1\<rparr>"
proof -
  from assms(1) obtain c1 r1 where m1: "matchCell (toUpperCase s) = Some (c1, r1)"
    by (auto simp: excelNotationToCell_def split: option.splits)
  from assms(2) obtain c2 r2 where m2: "matchCell (toUpperCase t) = Some (c2, r2)"
    by (auto simp: excelNotationToCell_def split: option.splits)
  note p1 = matchCell_Some [OF m1] and p2 = matchCell_Some [OF m2]
  have s_ne: "s \<noteq> []" using p1(1,2) by (auto simp: toUpperCase_def)
  have t_ne: "t \<noteq> []" using p2(1,3) by (auto simp: toUpperCase_def)
  have "hd (toUpperCase s) = hd c1" using p1(1,2) by simp
  moreover have "hd (toUpperCase s) = toUpperChar (hd s)"
    using s_ne by (simp add: toUpperCase_def hd_map)
  ultimately have "isUpperLetter (toUpperChar (hd s))" using p1(2,4) by simp
  then have first: "\<not> isSpace (hd s)" by (rule toUpperChar_letter_not_space)
  have "last (toUpperCase t) = last r2" using p2(1,3) by simp
  moreover have "last (toUpperCase t) = toUpperChar (last t)"
    using t_ne by (simp add: toUpperCase_def last_map)
  ultimately have "isDigit (toUpperChar (last t))" using p2(3,5) by simp
  then have final: "\<not> isSpace (last t)" by (rule toUpperChar_digit_not_space)
  have "trim (s @ '':'' @ t) = s @ '':'' @ t"
    using s_ne t_ne first final by (intro trim_fixed) simp_all
  then have trimmed: "toUpperCase (trim (s @ '':'' @ t)) = c1 @ r1 @ '':'' @ c2 @ r2"
    using p1(1) p2(1) by (simp add: toUpperCase_append toUpperCase_colon)
  have coord: "matchCoord (c1 @ r1 @ '':'' @ c2 @ r2) = None"
    using p1(2,4) by (intro matchCoord_letter_first) simp_all
  have excel: "matchExcel (c1 @ r1 @ '':'' @ c2 @ r2) = Some (c1, r1, Some (c2, r2))"
    using p1(2-5) p2(2-5) by (intro matchExcel_range)
  have e1: "excelNotationToCell (c1 @ r1) = Some a"
    using excelNotationToCell_upper [OF m1] assms(1) by simp
  have e2: "excelNotationToCell (c2 @ r2) = Some b"
    using excelNotationToCell_upper [OF m2] assms(2) by simp
  show ?thesis
    unfolding parseCellSpec_def Let_def trimmed coord excel
    by (simp add: e1 e2)
qed

text \<open>
  Claim C4. For any two valid cells X and Y (strings that \<open>excelNotationToCell\<close>
  accepts), \<open>parseCellSpec\<close> of the range X:Y succeeds with the span that starts at the
  smaller row and the smaller column of the two cells and covers both, so the start is
  the top-left corner whichever corner is written first, and X:Y parses to the same
  result as Y:X. In particular "B2:A1" parses to the 2 by 2 span at (0,0).
\<close>

theorem parseCellSpec_range_normalized:
  "(excelNotationToCell X = Some a \<and> excelNotationToCell Y = Some b \<longrightarrow>
      parseCellSpec (X @ '':'' @ Y) =
        ParseSuccess \<lparr>startRow = min (row a) (row b), startColumn = min (column a) (column b),
                      rowSpan = max (row a) (row b) - min (row a) (row b) + 1,
                      columnSpan = max (column a) (column b) - min (column a) (column b) + 1\<rparr> \<and>
      parseCellSpec (X @ '':'' @ Y) = parseCellSpec (Y @ '':'' @ X)) \<and>
   parseCellSpec ''B2:A1'' = ParseSuccess \<lparr>startRow = 0, startColumn = 0, rowSpan = 2, columnSpan = 2\<rparr> \<and>
   parseCellSpec ''B2:A1'' = parseCellSpec ''A1:B2''"
proof (intro conjI impI)
  assume h: "excelNotationToCell X = Some a \<and> excelNotationToCell Y = Some b"
  then have xy: "excelNotationToCell X = Some a" and yx: "excelNotationToCell Y = Some b"
    by simp_all
  show "parseCellSpec (X @ '':'' @ Y) =
        ParseSuccess \<lparr>startRow = min (row a) (row b), startColumn = min (column a) (column b),
                      rowSpan = max (row a) (row b) - min (row a) (row b) + 1,
                      columnSpan = max (column a) (column b) - min (column a) (column b) + 1\<rparr>"
    using xy yx by (rule parseCellSpec_range)
  show "parseCellSpec (X @ '':'' @ Y) = parseCellSpec (Y @ '':'' @ X)"
    by (simp only: parseCellSpec_range [OF xy yx] parseCellSpec_range [OF yx xy] min.commute max.commute)
next
  show "parseCellSpec ''B2:A1'' = ParseSuccess \<lparr>startRow = 0, startColumn = 0, rowSpan = 2, columnSpan = 2\<rparr>"
    by code_simp
next
  show "parseCellSpec ''B2:A1'' = parseCellSpec ''A1:B2''"
    by code_simp
qed

theorem parseCellSpec_range_normalized_witness:
  "excelNotationToCell ''c3'' = Some \<lparr>row = 2, column = 2\<rparr> \<and>
   excelNotationToCell ''AA1'' = Some \<lparr>row = 0, column = 26\<rparr> \<and>
   parseCellSpec ''c3:AA1'' =
     ParseSuccess \<lparr>startRow = 0, startColumn = 2, rowSpan = 3, columnSpan = 25\<rparr> \<and>
   parseCellSpec ''AA1:c3'' =
     ParseSuccess \<lparr>startRow = 0, startColumn = 2, rowSpan = 3, columnSpan = 25\<rparr>"
proof -
  have x: "excelNotationToCell ''c3'' = Some \<lparr>row = 2, column = 2\<rparr>" by code_simp
  have y: "excelNotationToCell ''AA1'' = Some \<lparr>row = 0, column = 26\<rparr>" by code_simp
  note range = parseCellSpec_range_normalized
      [of "''c3''" "\<lparr>row = 2, column = 2\<rparr>" "''AA1''" "\<lparr>row = 0, column = 26\<rparr>",
       THEN conjunct1, rule_format, OF conjI, OF x y]
  from range have xy: "parseCellSpec ''c3:AA1'' =
     ParseSuccess \<lparr>startRow = 0, startColumn = 2, rowSpan = 3, columnSpan = 25\<rparr>"
    by simp
  from range xy have "parseCellSpec ''AA1:c3'' =
     ParseSuccess \<lparr>startRow = 0, startColumn = 2, rowSpan = 3, columnSpan = 25\<rparr>"
    by simp
  with x y xy show ?thesis by simp
qed

text \<open>
  Claim C5. For every input string \<open>parseCellSpec\<close> returns a tagged result, a success
  with a span or a failure with a non-empty message; the function has no raising path.
  The malformed inputs "0,0:0x1", "", "A" and "1" are failures.
\<close>

theorem parseCellSpec_total:
  "((\<exists>span. parseCellSpec spec = ParseSuccess span) \<or>
    (\<exists>msg. parseCellSpec spec = ParseFailure msg \<and> msg \<noteq> [])) \<and>
   parseCellSpec ''0,0:0x1'' = ParseFailure ''Span dimensions must be at least 1'' \<and>
   parseCellSpec '''' = ParseFailure ''Invalid cell specification: '' \<and>
   parseCellSpec ''A'' = ParseFailure ''Invalid cell specification: A'' \<and>
   parseCellSpec ''1'' = ParseFailure ''Invalid cell specification: 1''"
proof (intro conjI)
  show "(\<exists>span. parseCellSpec spec = ParseSuccess span) \<or>
        (\<exists>msg. parseCellSpec spec = ParseFailure msg \<and> msg \<noteq> [])"
    by (simp add: parseCellSpec_def Let_def split: option.splits prod.splits)
  show "parseCellSpec ''0,0:0x1'' = ParseFailure ''Span dimensions must be at least 1''"
    by code_simp
  show "parseCellSpec '''' = ParseFailure ''Invalid cell specification: ''"
    by code_simp
  show "parseCellSpec ''A'' = ParseFailure ''Invalid cell specification: A''"
    by code_simp
  show "parseCellSpec ''1'' = ParseFailure ''Invalid cell specification: 1''"
    by code_simp
qed

theorem parseCellSpec_total_witness:
  "parseCellSpec ''A1:1,2'' = ParseFailure ''Invalid cell specification: A1:1,2'' \<and>
   (\<exists>msg. parseCellSpec ''A1:1,2'' = ParseFailure msg \<and> msg \<noteq> []) \<and>
   parseCellSpec '' 1 , 2 '' = ParseSuccess \<lparr>startRow = 1, startColumn = 2, rowSpan = 1, columnSpan = 1\<rparr>"
proof -
  have f: "parseCellSpec ''A1:1,2'' = ParseFailure ''Invalid cell specification: A1:1,2''"
    by code_simp
  have s: "parseCellSpec '' 1 , 2 '' = ParseSuccess \<lparr>startRow = 1, startColumn = 2, rowSpan = 1, columnSpan = 1\<rparr>"
    by code_simp
  from parseCellSpec_total [of "''A1:1,2''", THEN conjunct1] f
  have "\<exists>msg. parseCellSpec ''A1:1,2'' = ParseFailure msg \<and> msg \<noteq> []"
    by simp
  with f s show ?thesis by simp
qed

end
